theory Spec2Isabelle
  imports Complex_Main
begin

section \<open>Tensors\<close>

text \<open>
  The program manipulates TensorFlow tensors and NumPy arrays with statically known
  shapes. A tensor is its shape together with its entries in row-major order; the
  entry of a tensor of shape \<open>[B, W]\<close> at \<open>(b, i)\<close> is entry \<open>b * W + i\<close> of the
  flat list. Entries are modelled as real numbers: the theory is about the exact
  arithmetic the program approximates in single precision.
\<close>

record tensor =
  shape :: "nat list"
  entries :: "real list"

text \<open>A tensor of the program has as many entries as its shape says. The operations
  below read entries by their row-major index, so the theorems need not assume it.\<close>

definition well_formed :: "tensor \<Rightarrow> bool" where
  "well_formed t \<longleftrightarrow> length (entries t) = prod_list (shape t)"

text \<open>Row-major construction and access for ranks 2, 3 and 4.\<close>

definition tabulate2 :: "nat \<Rightarrow> nat \<Rightarrow> (nat \<Rightarrow> nat \<Rightarrow> real) \<Rightarrow> tensor" where
  "tabulate2 B W g =
     \<lparr>shape = [B, W], entries = map (\<lambda>k. g (k div W) (k mod W)) [0..<B * W]\<rparr>"

definition tabulate3 :: "nat \<Rightarrow> nat \<Rightarrow> nat \<Rightarrow> (nat \<Rightarrow> nat \<Rightarrow> nat \<Rightarrow> real) \<Rightarrow> tensor" where
  "tabulate3 B W S g =
     \<lparr>shape = [B, W, S],
      entries = map (\<lambda>k. g (k div (W * S)) ((k div S) mod W) (k mod S)) [0..<B * W * S]\<rparr>"

definition tabulate4 ::
  "nat \<Rightarrow> nat \<Rightarrow> nat \<Rightarrow> nat \<Rightarrow> (nat \<Rightarrow> nat \<Rightarrow> nat \<Rightarrow> nat \<Rightarrow> real) \<Rightarrow> tensor" where
  "tabulate4 B W D C g =
     \<lparr>shape = [B, W, D, C],
      entries = map (\<lambda>k. g (k div (W * D * C)) ((k div (D * C)) mod W) ((k div C) mod D) (k mod C))
                 [0..<B * W * D * C]\<rparr>"

definition at2 :: "tensor \<Rightarrow> nat \<Rightarrow> nat \<Rightarrow> real" where
  "at2 t b i = entries t ! (b * (shape t ! 1) + i)"

definition at3 :: "tensor \<Rightarrow> nat \<Rightarrow> nat \<Rightarrow> nat \<Rightarrow> real" where
  "at3 t b i s = entries t ! ((b * (shape t ! 1) + i) * (shape t ! 2) + s)"

definition at4 :: "tensor \<Rightarrow> nat \<Rightarrow> nat \<Rightarrow> nat \<Rightarrow> nat \<Rightarrow> real" where
  "at4 t b i d c =
     entries t ! (((b * (shape t ! 1) + i) * (shape t ! 2) + d) * (shape t ! 3) + c)"

section \<open>Errors\<close>

text \<open>Every \<open>raise\<close> of the Python source, and every exception that Python, NumPy
  or TensorFlow raises in the modelled code, is a value of this type; a function that can
  raise returns \<open>error + result\<close> with \<open>Inl\<close> for the exception.\<close>

datatype error = ValueError | ZeroDivisionError | AttributeError | IndexError | AssertionError

definition bind :: "error + 'a \<Rightarrow> ('a \<Rightarrow> error + 'b) \<Rightarrow> error + 'b" where
  "bind m f = (case m of Inl e \<Rightarrow> Inl e | Inr x \<Rightarrow> f x)"

section \<open>TensorFlow operations used by the model\<close>

text \<open>\<open>tf.reshape\<close>: the entries stay in row-major order. At most one requested
  dimension may be \<open>-1\<close>; it is inferred from the number of entries, which is
  impossible when the remaining dimensions multiply to zero.\<close>

definition tf_reshape :: "tensor \<Rightarrow> int list \<Rightarrow> error + tensor" where
  "tf_reshape t dims =
     (let known = prod_list (filter (\<lambda>d. d \<noteq> - 1) dims);
          n = int (prod_list (shape t))
      in if (\<exists>d \<in> set dims. d < - 1) \<or> 1 < length (filter (\<lambda>d. d = - 1) dims)
         then Inl ValueError
         else if - 1 \<in> set dims
         then (if known = 0 \<or> n mod known \<noteq> 0 then Inl ValueError
               else Inr \<lparr>shape = map (\<lambda>d. nat (if d = - 1 then n div known else d)) dims,
                         entries = entries t\<rparr>)
         else if known \<noteq> n then Inl ValueError
         else Inr \<lparr>shape = map nat dims, entries = entries t\<rparr>)"

text \<open>\<open>tf.reduce_mean\<close> over the last axis. With \<open>keepdims\<close> the reduced axis
  stays with length 1. (The mean over an axis of length 0 is NaN in the program;
  here it is the value of \<open>0 / 0\<close>, and no theorem below reads it.)\<close>

definition reduce_mean_last :: "bool \<Rightarrow> tensor \<Rightarrow> tensor" where
  "reduce_mean_last keepdims t =
     (let n = last (shape t); lead = butlast (shape t)
      in \<lparr>shape = (if keepdims then lead @ [1] else lead),
          entries = map (\<lambda>k. sum_list (map (\<lambda>j. entries t ! (k * n + j)) [0..<n]) / real n)
                     [0..<prod_list lead]\<rparr>)"


section \<open>Down-sampling (model.py)\<close>

definition resample_mean :: "tensor \<Rightarrow> int \<Rightarrow> error + tensor" where
  "resample_mean inputs factor =
     (if length (shape inputs) \<noteq> 2 then Inl ValueError
      else if factor = 0 then Inl ZeroDivisionError
      else if int (shape inputs ! 1) mod factor \<noteq> 0 then Inl ValueError
      else bind (tf_reshape inputs [- 1, int (shape inputs ! 1) div factor, factor])
             (\<lambda>reshaped. Inr (reduce_mean_last False reshaped)))"


section \<open>Further tensor operations\<close>

text \<open>\<open>t[..., tf.newaxis]\<close> appends an axis of length 1; \<open>inputs[:, :, tf.newaxis]\<close>
  inserts one after the second axis and needs at least two axes.\<close>

definition newaxis_last :: "tensor \<Rightarrow> tensor" where
  "newaxis_last t = \<lparr>shape = shape t @ [1], entries = entries t\<rparr>"

definition newaxis_third :: "tensor \<Rightarrow> error + tensor" where
  "newaxis_third t =
     (if length (shape t) < 2 then Inl ValueError
      else Inr \<lparr>shape = take 2 (shape t) @ [1] @ drop 2 (shape t), entries = entries t\<rparr>)"

text \<open>\<open>tf.squeeze(t, axis=2)\<close> removes the third axis, which must have length 1.\<close>

definition squeeze_third :: "tensor \<Rightarrow> error + tensor" where
  "squeeze_third t =
     (if length (shape t) < 3 \<or> shape t ! 2 \<noteq> 1 then Inl ValueError
      else Inr \<lparr>shape = take 2 (shape t) @ drop 3 (shape t), entries = entries t\<rparr>)"

text \<open>\<open>tf.extract_image_patches\<close> with \<open>ksizes=[1, ksize, 1, 1]\<close>, unit strides and
  rates and \<open>'VALID'\<close> padding, on images of shape \<open>[B, H, V, C]\<close>: the result has
  shape \<open>[B, H - ksize + 1, V, ksize * C]\<close> and its depth lists the \<open>ksize\<close> rows of the
  window, row by row.\<close>

definition extract_image_patches :: "tensor \<Rightarrow> int \<Rightarrow> error + tensor" where
  "extract_image_patches images ksize =
     (if length (shape images) \<noteq> 4 \<or> ksize < 1 \<or> int (shape images ! 1) + 1 < ksize
      then Inl ValueError
      else let B = shape images ! 0; H = shape images ! 1; V = shape images ! 2;
               C = shape images ! 3; S = nat ksize
           in Inr (tabulate4 B (H + 1 - S) V (S * C)
                     (\<lambda>b i v k. at4 images b (i + k div C) v (k mod C))))"

text \<open>\<open>tf.einsum('bxdi,bxi->bxd', coefficients, patches)\<close>.\<close>

definition einsum_bxdi_bxi :: "tensor \<Rightarrow> tensor \<Rightarrow> error + tensor" where
  "einsum_bxdi_bxi c p =
     (if length (shape c) \<noteq> 4 \<or> length (shape p) \<noteq> 3
         \<or> shape p \<noteq> [shape c ! 0, shape c ! 1, shape c ! 3]
      then Inl ValueError
      else Inr (tabulate3 (shape c ! 0) (shape c ! 1) (shape c ! 2)
                  (\<lambda>b x d. sum_list (map (\<lambda>i. at4 c b x d i * at3 p b x i)
                                        [0..<shape c ! 3]))))"

text \<open>\<open>tf.tile(coefficients[tf.newaxis, tf.newaxis, :, :], [B, X, 1, 1])\<close>: the
  rank-2 tensor repeated at every batch element and position.\<close>

definition tile_leading :: "tensor \<Rightarrow> nat \<Rightarrow> nat \<Rightarrow> tensor" where
  "tile_leading coefficients B X =
     tabulate4 B X (shape coefficients ! 0) (shape coefficients ! 1)
       (\<lambda>b x d c. at2 coefficients d c)"

text \<open>\<open>outputs -= tf.reduce_mean(outputs, axis=-1, keepdims=True)\<close>: the mean of
  each vector along the last axis is broadcast back over that axis.\<close>

definition subtract_broadcast_last :: "tensor \<Rightarrow> tensor \<Rightarrow> tensor" where
  "subtract_broadcast_last t m =
     \<lparr>shape = shape t,
      entries = map (\<lambda>k. entries t ! k - entries m ! (k div last (shape t)))
                  [0..<prod_list (shape t)]\<rparr>"

text \<open>\<open>net[..., start:stop]\<close>: a slice of the last axis, with Python's clamping of
  the bounds to the axis.\<close>

definition slice_last :: "tensor \<Rightarrow> nat \<Rightarrow> nat \<Rightarrow> tensor" where
  "slice_last t start stop =
     (let C = last (shape t); lo = min start C; hi = max lo (min stop C); n = hi - lo
      in \<lparr>shape = butlast (shape t) @ [n],
          entries = map (\<lambda>k. entries t ! ((k div n) * C + lo + k mod n))
                      [0..<prod_list (butlast (shape t)) * n]\<rparr>)"

text \<open>\<open>t[..., i]\<close>: channel \<open>i\<close> of the last axis.\<close>

definition channel :: "tensor \<Rightarrow> nat \<Rightarrow> error + tensor" where
  "channel t i =
     (if shape t = [] \<or> last (shape t) \<le> i then Inl ValueError
      else Inr \<lparr>shape = butlast (shape t),
                entries = map (\<lambda>k. entries t ! (k * last (shape t) + i))
                            [0..<prod_list (butlast (shape t))]\<rparr>)"

text \<open>\<open>tf.stack(ts, axis=-2)\<close> of tensors of one common shape \<open>lead @ [G]\<close>: the
  result has shape \<open>lead @ [length ts, G]\<close>.\<close>

definition stack_before_last :: "tensor list \<Rightarrow> error + tensor" where
  "stack_before_last ts =
     (if ts = [] \<or> shape (hd ts) = [] \<or> (\<exists>t \<in> set ts. shape t \<noteq> shape (hd ts))
      then Inl ValueError
      else let lead = butlast (shape (hd ts)); G = last (shape (hd ts)); n = length ts
           in Inr \<lparr>shape = lead @ [n, G],
                    entries = map (\<lambda>k. entries (ts ! ((k div G) mod n))
                                          ! ((k div (n * G)) * G + k mod G))
                                [0..<prod_list lead * n * G]\<rparr>)"


section \<open>Hyperparameters and the collaborators outside the two modules\<close>

text \<open>The hyperparameters of \<open>create_hparams\<close> (training.py) that concern the model
  and the loss scales; \<open>equation_name\<close> is the hyperparameter \<open>equation\<close>.
  \<open>polynomial_accuracy_order = 0\<close> is the falsy value tested by
  \<open>not hparams.polynomial_accuracy_order\<close>.\<close>

record hparams =
  equation_name :: string
  conservative :: bool
  resample_factor :: int
  resample_method :: string
  num_layers :: int
  filter_size :: int
  polynomial_accuracy_order :: int
  polynomial_accuracy_scale :: real
  ensure_unbiased_coefficients :: bool
  coefficient_grid_min_size :: int
  frac_training :: real
  error_floor_quantile :: real

text \<open>Python passes arguments untyped. The argument in the position of the
  hyperparameters is an object: a hyperparameter set, or (in one call of the source) a
  tensor. Reading a hyperparameter attribute of a tensor raises \<open>AttributeError\<close>.\<close>

datatype pyobj = PyTensor tensor | PyHParams hparams

definition hparams_attributes :: "pyobj \<Rightarrow> error + hparams" where
  "hparams_attributes obj =
     (case obj of PyTensor t \<Rightarrow> Inl AttributeError | PyHParams hp \<Rightarrow> Inr hp)"

text \<open>An equation class (equations.py is not among the sources; this is the interface
  model.py uses): the class attributes \<open>DERIVATIVE_ORDERS\<close> and \<open>GRID_OFFSET\<close>, and,
  for an instance built for a number of grid points, \<open>dx\<close> and
  \<open>equation_of_motion\<close>, which receives the field and a dictionary from derivative
  order to spatial derivative.\<close>

record equation_type =
  DERIVATIVE_ORDERS :: "nat list"
  GRID_OFFSET :: bool
  grid_spacing :: "nat \<Rightarrow> real"
  motion :: "nat \<Rightarrow> tensor \<Rightarrow> (nat \<rightharpoonup> tensor) \<Rightarrow> tensor"

record equation =
  equation_class :: equation_type
  num_points :: nat


definition equation_of_motion :: "equation \<Rightarrow> tensor \<Rightarrow> (nat \<rightharpoonup> tensor) \<Rightarrow> tensor" where
  "equation_of_motion e = motion (equation_class e) (num_points e)"

datatype activation = Relu | NoActivation

record poly_layer =
  input_size :: nat
  apply_layer :: "tensor \<Rightarrow> tensor"

text \<open>What model.py and training.py call outside themselves, as parameters of the
  model: \<open>equations.from_hparams\<close>; from polynomials.py the grid of a finite
  difference stencil (with the keyword arguments \<open>accuracy_order\<close> and \<open>dx\<close>, each
  optional), \<open>apply_finite_differences\<close> and the constructor of
  \<open>PolynomialAccuracyLayer\<close>; from layers.py the learned periodic convolution (its
  first argument numbers the call, since every call owns its weights) and the
  centering offset of periodic padding; TensorFlow's batch normalisation; and the
  current values of the variables of \<open>tf.get_variable\<close>, by name and row-major
  index.\<close>

record externals =
  from_hparams :: "pyobj \<Rightarrow> error + equation_type"
  regular_finite_difference_grid :: "bool \<Rightarrow> nat \<Rightarrow> int option \<Rightarrow> real option \<Rightarrow> real list"
  apply_finite_differences :: "tensor \<Rightarrow> real list \<Rightarrow> nat \<Rightarrow> tensor"
  PolynomialAccuracyLayer :: "real list \<Rightarrow> nat \<Rightarrow> int \<Rightarrow> real \<Rightarrow> error + poly_layer"
  conv1d_periodic_layer :: "nat \<Rightarrow> tensor \<Rightarrow> int \<Rightarrow> nat \<Rightarrow> activation \<Rightarrow> bool \<Rightarrow> tensor"
  centering_offset :: "int \<Rightarrow> int"
  batch_normalization :: "tensor \<Rightarrow> bool \<Rightarrow> tensor"
  variable_values :: "string \<Rightarrow> nat \<Rightarrow> real"

definition get_variable :: "externals \<Rightarrow> string \<Rightarrow> nat list \<Rightarrow> tensor" where
  "get_variable ext name shp =
     \<lparr>shape = shp, entries = map (variable_values ext name) [0..<prod_list shp]\<rparr>"

section \<open>Coefficient prediction (model.py)\<close>

text \<open>The loop \<open>for _ in range(hparams.num_layers - 1)\<close> of hidden layers.\<close>

fun hidden_layers :: "externals \<Rightarrow> int \<Rightarrow> nat \<Rightarrow> tensor \<Rightarrow> tensor" where
  "hidden_layers ext filters 0 net = net"
| "hidden_layers ext filters (Suc n) net =
     conv1d_periodic_layer ext n (hidden_layers ext filters n net) filters 3 Relu True"

fun sequence :: "(error + 'a) list \<Rightarrow> error + 'a list" where
  "sequence [] = Inr []"
| "sequence (m # ms) = bind m (\<lambda>x. bind (sequence ms) (\<lambda>xs. Inr (x # xs)))"

definition cumsum :: "nat list \<Rightarrow> nat list" where
  "cumsum xs = map (\<lambda>i. sum_list (take (Suc i) xs)) [0..<length xs]"

definition predict_coefficients ::
  "externals \<Rightarrow> tensor \<Rightarrow> pyobj \<Rightarrow> bool \<Rightarrow> error + tensor" where
  "predict_coefficients ext inputs hparams training =
     bind (from_hparams ext hparams) (\<lambda>equation_type.
     bind (hparams_attributes hparams) (\<lambda>hp.
       let num_derivatives = length (DERIVATIVE_ORDERS equation_type);
           grid = regular_finite_difference_grid ext (GRID_OFFSET equation_type) 0
                    (Some (coefficient_grid_min_size hp)) None
       in if num_layers hp = 0
          then (if length (shape inputs) < 2 then Inl IndexError
                else let coefficients =
                           get_variable ext ''coefficients'' [num_derivatives, length grid]
                     in Inr (tile_leading coefficients (shape inputs ! 0) (shape inputs ! 1)))
          else
            bind (newaxis_third inputs) (\<lambda>net0.
              let net1 = batch_normalization ext net0 training;
                  net2 = hidden_layers ext (filter_size hp) (nat (num_layers hp - 1)) net1;
                  last_layer = nat (num_layers hp - 1)
              in if polynomial_accuracy_order hp = 0
                 then
                   (let net3 = conv1d_periodic_layer ext last_layer net2
                                 (int (num_derivatives * length grid)) 3 NoActivation True
                    in bind (tf_reshape net3
                               (map int (shape inputs) @ [int num_derivatives, int (length grid)]))
                         (\<lambda>outputs.
                            if length (shape inputs) \<noteq> 2 then Inl ValueError
                            else if ensure_unbiased_coefficients hp
                            then (if 0 \<in> set (DERIVATIVE_ORDERS equation_type)
                                  then Inl ValueError
                                  else Inr (subtract_broadcast_last outputs
                                              (reduce_mean_last True outputs)))
                            else Inr outputs))
                 else
                   bind (sequence
                           (map (\<lambda>derivative_order.
                                   PolynomialAccuracyLayer ext grid derivative_order
                                     (polynomial_accuracy_order hp)
                                     (polynomial_accuracy_scale hp))
                              (DERIVATIVE_ORDERS equation_type)))
                     (\<lambda>poly_accuracy_layers.
                        let input_sizes = map input_size poly_accuracy_layers;
                            net3 = conv1d_periodic_layer ext last_layer net2
                                     (int (sum_list input_sizes)) 3 NoActivation True;
                            cum_sizes = cumsum input_sizes;
                            starts = 0 # butlast cum_sizes;
                            stops = cum_sizes
                        in bind (stack_before_last
                                   (map (\<lambda>(start, stop, layer).
                                           apply_layer layer (slice_last net3 start stop))
                                      (zip starts (zip stops poly_accuracy_layers))))
                             (\<lambda>outputs.
                                if last (shape outputs) \<noteq> length grid then Inl AssertionError
                                else Inr outputs)))))"

section \<open>Periodic patches and the derivative pipeline (model.py)\<close>

text \<open>Modelled from the spec: \<open>layers.pad_periodic\<close>, which layers.py defines and the
  sources do not include. The spec's Periodic Stencil Extractor returns, for every
  position \<open>i\<close> of a field of width \<open>W\<close>, the consecutive values starting at
  \<open>i - offset\<close> with indices wrapped modulo \<open>W\<close>, the offset fixed by a centering
  convention, and wraps the same points several times when the window is wider than
  the field. Accordingly the padded tensor, of shape \<open>[B, W + padding, F]\<close>, holds at
  position \<open>j\<close> the input at position \<open>(j - offset) mod W\<close>; the centering
  convention is the parameter \<open>centering_offset\<close>, and without centering the offset
  is 0. The input is a field with a trailing feature axis, \<open>[B, W, F]\<close>; another rank
  is rejected.\<close>

definition pad_periodic :: "externals \<Rightarrow> tensor \<Rightarrow> int \<Rightarrow> bool \<Rightarrow> error + tensor" where
  "pad_periodic ext inputs padding center =
     (if length (shape inputs) \<noteq> 3 then Inl ValueError
      else let B = shape inputs ! 0; W = shape inputs ! 1; F = shape inputs ! 2;
               offset = (if center then centering_offset ext padding else 0)
           in Inr (tabulate3 B (nat (int W + padding)) F
                     (\<lambda>b j c. at3 inputs b (nat ((int j - offset) mod int W)) c)))"

definition extract_patches :: "externals \<Rightarrow> tensor \<Rightarrow> int \<Rightarrow> error + tensor" where
  "extract_patches ext inputs ksize =
     bind (pad_periodic ext (newaxis_last inputs) (ksize - 1) True) (\<lambda>padded_inputs.
     bind (extract_image_patches (newaxis_last padded_inputs) ksize) (\<lambda>extracted.
       squeeze_third extracted))"

definition apply_coefficients :: "externals \<Rightarrow> tensor \<Rightarrow> tensor \<Rightarrow> error + tensor" where
  "apply_coefficients ext coefficients inputs =
     (if length (shape coefficients) < 4 then Inl IndexError
      else bind (extract_patches ext inputs (int (shape coefficients ! 3))) (\<lambda>patches.
             einsum_bxdi_bxi coefficients patches))"

definition predict_space_derivatives :: "externals \<Rightarrow> tensor \<Rightarrow> pyobj \<Rightarrow> error + tensor" where
  "predict_space_derivatives ext inputs hparams =
     bind (predict_coefficients ext inputs hparams True) (\<lambda>coefficients.
       apply_coefficients ext coefficients inputs)"

text \<open>A dictionary built from key-value pairs in order: a later pair replaces an
  earlier one with the same key.\<close>

definition dict_of :: "('k \<times> 'v) list \<Rightarrow> ('k \<rightharpoonup> 'v)" where
  "dict_of kvs = foldl (\<lambda>m (k, v). m(k \<mapsto> v)) Map.empty kvs"

definition apply_space_derivatives ::
  "externals \<Rightarrow> tensor \<Rightarrow> tensor \<Rightarrow> pyobj \<Rightarrow> error + tensor" where
  "apply_space_derivatives ext derivatives inputs hparams =
     bind (from_hparams ext hparams) (\<lambda>equation_type.
       if shape inputs = [] then Inl IndexError
       else let equation = \<lparr>equation_class = equation_type, num_points = last (shape inputs)\<rparr>;
                orders = DERIVATIVE_ORDERS equation_type
            in bind (sequence (map (channel derivatives) [0..<length orders])) (\<lambda>channels.
                 Inr (equation_of_motion equation inputs (dict_of (zip orders channels)))))"

text \<open>The source passes \<open>inputs\<close> twice to \<open>predict_space_derivatives\<close>.\<close>

definition predict_time_derivative :: "externals \<Rightarrow> tensor \<Rightarrow> pyobj \<Rightarrow> error + tensor" where
  "predict_time_derivative ext inputs hparams =
     bind (predict_space_derivatives ext inputs (PyTensor inputs)) (\<lambda>space_derivatives.
       apply_space_derivatives ext space_derivatives inputs hparams)"




section \<open>Loss components (model.py) and loss scales (training.py)\<close>

text \<open>Element-wise arithmetic on arrays of one shape. (The program only combines
  arrays of equal shape here; NumPy's broadcasting of other shapes is not modelled and
  is reported as \<open>ValueError\<close>.) Division by zero is not an exception in NumPy or
  TensorFlow: it yields an infinity or NaN, for which the model has the value of
  \<open>x / 0\<close>.\<close>

definition elementwise :: "(real \<Rightarrow> real \<Rightarrow> real) \<Rightarrow> tensor \<Rightarrow> tensor \<Rightarrow> error + tensor" where
  "elementwise f a b =
     (if shape a \<noteq> shape b then Inl ValueError
      else Inr \<lparr>shape = shape a,
                entries = map (\<lambda>k. f (entries a ! k) (entries b ! k))
                            [0..<prod_list (shape a)]\<rparr>)"

text \<open>\<open>a + v\<close> where \<open>v\<close> is a scalar or has one entry per channel of the last axis
  of \<open>a\<close>.\<close>

definition add_per_channel :: "tensor \<Rightarrow> tensor \<Rightarrow> error + tensor" where
  "add_per_channel a v =
     (if shape v = [] \<or> shape v = [1]
      then Inr \<lparr>shape = shape a,
                entries = map (\<lambda>k. entries a ! k + entries v ! 0) [0..<prod_list (shape a)]\<rparr>
      else if shape a \<noteq> [] \<and> shape v = [last (shape a)]
      then Inr \<lparr>shape = shape a,
                entries = map (\<lambda>k. entries a ! k + entries v ! (k mod last (shape a)))
                            [0..<prod_list (shape a)]\<rparr>
      else Inl ValueError)"

definition loss_components ::
  "tensor \<Rightarrow> tensor \<Rightarrow> tensor \<Rightarrow> tensor \<Rightarrow> error + (tensor \<times> tensor)" where
  "loss_components predictions labels baseline error_floor =
     bind (elementwise (\<lambda>l p. (l - p)\<^sup>2) labels predictions) (\<lambda>model_error.
     bind (elementwise (\<lambda>l b. (l - b)\<^sup>2) labels baseline) (\<lambda>baseline_error.
     bind (add_per_channel baseline_error error_floor) (\<lambda>denominator.
     bind (elementwise (\<lambda>m d. m / d) model_error denominator) (\<lambda>relative_error.
       Inr (model_error, relative_error)))))"

text \<open>\<open>np.percentile\<close> of a sample with the default linear interpolation: the value
  at the fractional rank \<open>q / 100 * (n - 1)\<close> of the sorted sample.\<close>

definition percentile_of_sample :: "real list \<Rightarrow> real \<Rightarrow> real" where
  "percentile_of_sample xs q =
     (let sorted_xs = sort xs; n = length xs;
          position = q / 100 * real (n - 1);
          lo = nat \<lfloor>position\<rfloor>; hi = min (lo + 1) (n - 1)
      in sorted_xs ! lo + (sorted_xs ! hi - sorted_xs ! lo) * (position - real lo))"

text \<open>The samples that a reduction over the axes \<open>(0, 1)\<close> combines for entry \<open>k\<close> of
  its result.\<close>

definition samples_axes_0_1 :: "tensor \<Rightarrow> nat \<Rightarrow> real list" where
  "samples_axes_0_1 a k =
     map (\<lambda>m. entries a ! (m * prod_list (drop 2 (shape a)) + k))
       [0..<prod_list (take 2 (shape a))]"

text \<open>\<open>np.percentile(a, q, axis=(0, 1))\<close>. A percentile outside \<open>[0, 100]\<close> raises
  \<open>ValueError\<close>. For an empty sample NumPy raises or yields NaN, depending on the
  release; the model reports it as an error.\<close>

definition np_percentile_axes_0_1 :: "tensor \<Rightarrow> real \<Rightarrow> error + tensor" where
  "np_percentile_axes_0_1 a q =
     (if length (shape a) < 2 then Inl ValueError
      else if q < 0 \<or> 100 < q then Inl ValueError
      else if prod_list (take 2 (shape a)) = 0 then Inl IndexError
      else Inr \<lparr>shape = drop 2 (shape a),
                entries = map (\<lambda>k. percentile_of_sample (samples_axes_0_1 a k) q)
                            [0..<prod_list (drop 2 (shape a))]\<rparr>)"

definition np_maximum_scalar :: "tensor \<Rightarrow> real \<Rightarrow> tensor" where
  "np_maximum_scalar a c = \<lparr>shape = shape a, entries = map (\<lambda>x. max x c) (entries a)\<rparr>"

definition zeros_like :: "tensor \<Rightarrow> tensor" where
  "zeros_like a = \<lparr>shape = shape a, entries = replicate (prod_list (shape a)) 0\<rparr>"

text \<open>\<open>np.stack\<close> of a pair of arrays of one shape, along a new first axis.\<close>

definition np_stack_pair :: "tensor \<times> tensor \<Rightarrow> error + tensor" where
  "np_stack_pair p =
     (case p of (a, b) \<Rightarrow>
        if shape a \<noteq> shape b then Inl ValueError
        else let n = prod_list (shape a)
             in Inr \<lparr>shape = 2 # shape a,
                      entries = map (\<lambda>k. if k < n then entries a ! k else entries b ! (k - n))
                                  [0..<2 * n]\<rparr>)"

text \<open>\<open>np.mean(a, axis=(1, 2))\<close> on an array of shape \<open>[H, N, X] @ rest\<close>.\<close>

definition np_mean_axes_1_2 :: "tensor \<Rightarrow> error + tensor" where
  "np_mean_axes_1_2 a =
     (if length (shape a) < 3 then Inl ValueError
      else let H = shape a ! 0; M = shape a ! 1 * shape a ! 2; R = prod_list (drop 3 (shape a))
           in Inr \<lparr>shape = H # drop 3 (shape a),
                    entries = map (\<lambda>j. sum_list (map (\<lambda>m. entries a ! ((j div R) * M * R + m * R + j mod R))
                                                    [0..<M]) / real M)
                                [0..<H * R]\<rparr>)"

text \<open>\<open>np.where(a > 0, 1.0 / a, 0)\<close>.\<close>

definition reciprocal_where_positive :: "tensor \<Rightarrow> tensor" where
  "reciprocal_where_positive a =
     \<lparr>shape = shape a, entries = map (\<lambda>x. if 0 < x then 1 / x else 0) (entries a)\<rparr>"

text \<open>The dictionary of arrays that \<open>load_dataset\<close> returns.\<close>

record data =
  labels :: tensor
  baseline :: tensor
  coarse_inputs :: tensor

text \<open>\<open>determine_loss_scales\<close>. Its first two statements build the training dataset
  with TensorFlow's input pipeline and load it into memory; their composition is the
  parameter \<open>load\<close>, called with \<open>training=True\<close> and \<open>repeat=False\<close>. The pair
  returned is \<open>(error_floor, error_scale)\<close>.\<close>

definition determine_loss_scales ::
  "(tensor \<Rightarrow> hparams \<Rightarrow> bool \<Rightarrow> bool \<Rightarrow> data) \<Rightarrow> tensor \<Rightarrow> hparams \<Rightarrow> error + (tensor \<times> tensor)" where
  "determine_loss_scales load snapshots hparams =
     (let dat = load snapshots hparams True False
      in bind (elementwise (\<lambda>l b. (l - b)\<^sup>2) (labels dat) (baseline dat)) (\<lambda>baseline_error.
           let percentile = 100 * error_floor_quantile hparams
           in bind (np_percentile_axes_0_1 baseline_error percentile) (\<lambda>floor_percentile.
                let error_floor = np_maximum_scalar floor_percentile (1 / 10 ^ 12);
                    zero_predictions = zeros_like (labels dat)
                in bind (loss_components zero_predictions (labels dat) (baseline dat) error_floor)
                     (\<lambda>components_pair.
                bind (np_stack_pair components_pair) (\<lambda>components.
                bind (np_mean_axes_1_2 components) (\<lambda>mean_error.
                  let error_scale = reciprocal_where_positive mean_error
                  in Inr (error_floor, error_scale)))))))"

section \<open>Circular shifts\<close>

text \<open>Shifting a batch of fields, or a batch of patch sequences, by \<open>k\<close> positions along
  the position axis (the second axis), as \<open>np.roll(t, k, axis=1)\<close> does: the value
  at position \<open>i\<close> moves to position \<open>(i + k) mod W\<close>.\<close>

definition roll_field :: "tensor \<Rightarrow> int \<Rightarrow> tensor" where
  "roll_field t k =
     tabulate2 (shape t ! 0) (shape t ! 1)
       (\<lambda>b i. at2 t b (nat ((int i - k) mod int (shape t ! 1))))"

definition roll_patches :: "tensor \<Rightarrow> int \<Rightarrow> tensor" where
  "roll_patches t k =
     tabulate3 (shape t ! 0) (shape t ! 1) (shape t ! 2)
       (\<lambda>b i s. at3 t b (nat ((int i - k) mod int (shape t ! 1))) s)"

section \<open>A concrete instance\<close>

text \<open>An instance of the collaborators, small enough to run the model by hand: two
  equations, ``advection'' (first derivative only, time derivative \<open>- u_x\<close>) and
  ``reaction'' (which also declares the zeroth derivative); a three-point stencil; a
  convolution that scales its first input channel; the zero-layer coefficients of the
  central difference \<open>[-1/2, 0, 1/2]\<close>.\<close>

definition negate :: "tensor \<Rightarrow> tensor" where
  "negate t = \<lparr>shape = shape t, entries = map uminus (entries t)\<rparr>"

definition example_equation :: "nat list \<Rightarrow> equation_type" where
  "example_equation orders =
     \<lparr>DERIVATIVE_ORDERS = orders, GRID_OFFSET = False,
      grid_spacing = (\<lambda>n. 1 / real n),
      motion = (\<lambda>n u derivatives. case derivatives 1 of None \<Rightarrow> u | Some u_x \<Rightarrow> negate u_x)\<rparr>"

definition example_externals :: externals where
  "example_externals =
     \<lparr>from_hparams = (\<lambda>obj. case obj of
          PyTensor t \<Rightarrow> Inl AttributeError
        | PyHParams hp \<Rightarrow>
            if equation_name hp = ''advection'' then Inr (example_equation [1])
            else if equation_name hp = ''reaction'' then Inr (example_equation [0, 1])
            else Inl ValueError),
      regular_finite_difference_grid = (\<lambda>offset order accuracy spacing. [- 1, 0, 1]),
      apply_finite_differences = (\<lambda>t grid order.
          \<lparr>shape = shape t, entries = map (\<lambda>x. real order * x) (entries t)\<rparr>),
      PolynomialAccuracyLayer = (\<lambda>grid order accuracy scale.
          Inr \<lparr>input_size = 1,
               apply_layer = (\<lambda>t. \<lparr>shape = butlast (shape t) @ [length grid],
                                    entries = concat (map (replicate (length grid)) (entries t))\<rparr>)\<rparr>),
      conv1d_periodic_layer = (\<lambda>n t filters kernel_size act center.
          \<lparr>shape = butlast (shape t) @ [nat filters],
           entries = map (\<lambda>j. real (j mod nat filters + 1)
                                * entries t ! (j div nat filters * last (shape t)))
                       [0..<prod_list (butlast (shape t)) * nat filters]\<rparr>),
      centering_offset = (\<lambda>padding. padding div 2),
      batch_normalization = (\<lambda>t training. t),
      variable_values = (\<lambda>name k. real_of_int (int (k mod 3) - 1) / 2)\<rparr>"

definition example_hparams :: hparams where
  "example_hparams =
     \<lparr>equation_name = ''advection'', conservative = True, resample_factor = 4,
      resample_method = ''subsample'', num_layers = 0, filter_size = 2,
      polynomial_accuracy_order = 0, polynomial_accuracy_scale = 1,
      ensure_unbiased_coefficients = True, coefficient_grid_min_size = 3,
      frac_training = 4 / 5, error_floor_quantile = 1 / 2\<rparr>"

definition example_field :: tensor where
  "example_field = \<lparr>shape = [1, 3], entries = [1, 2, 4]\<rparr>"

definition field_of_width :: "nat \<Rightarrow> tensor" where
  "field_of_width W = \<lparr>shape = [1, W], entries = map real [0..<W]\<rparr>"

text \<open>The mean over the dataset (all leading axes) of channel \<open>d\<close> of an array whose
  last axis is the channel axis.\<close>

definition channel_mean :: "tensor \<Rightarrow> nat \<Rightarrow> real" where
  "channel_mean t d =
     (let D = last (shape t); M = prod_list (butlast (shape t))
      in sum_list (map (\<lambda>m. entries t ! (m * D + d)) [0..<M]) / real M)"

text \<open>A training set of two examples with one position and two channels; the labels of
  the second channel are all zero. The loader returns it for any snapshots.\<close>

definition example_data :: data where
  "example_data =
     \<lparr>labels = \<lparr>shape = [2, 1, 2], entries = [1, 0, 3, 0]\<rparr>,
      baseline = \<lparr>shape = [2, 1, 2], entries = [0, 0, 1, 0]\<rparr>,
      coarse_inputs = \<lparr>shape = [2, 1], entries = [1, 3]\<rparr>\<rparr>"

definition example_load :: "tensor \<Rightarrow> hparams \<Rightarrow> bool \<Rightarrow> bool \<Rightarrow> data" where
  "example_load snapshots hp training repeat = example_data"

section \<open>Row-major index arithmetic\<close>

lemma flat_index2:
  fixes b i B W :: nat
  assumes "b < B" "i < W"
  shows "b * W + i < B * W" and "(b * W + i) div W = b" and "(b * W + i) mod W = i"
proof -
  have "b * W + i + 1 \<le> (b + 1) * W" using assms by simp
  also have "\<dots> \<le> B * W" using assms(1) by (intro mult_le_mono1) simp
  finally show "b * W + i < B * W" by simp
  show "(b * W + i) div W = b" "(b * W + i) mod W = i" using assms by simp_all
qed

lemma flat_index3_lt:
  fixes b i s B W S :: nat
  assumes "b < B" "i < W" "s < S"
  shows "(b * W + i) * S + s < B * W * S"
proof -
  have "b * W + i + 1 \<le> B * W" using flat_index2(1)[OF assms(1,2)] by simp
  then have le: "(b * W + i + 1) * S \<le> B * W * S" by (rule mult_le_mono1)
  have "(b * W + i) * S + s < (b * W + i) * S + S" using assms by simp
  also have "\<dots> = (b * W + i + 1) * S" by (simp add: algebra_simps)
  finally show ?thesis using le by linarith
qed

lemma flat_index3_div:
  fixes b i s W S :: nat
  assumes "i < W" "s < S"
  shows "((b * W + i) * S + s) div (W * S) = b"
proof -
  have d: "((b * W + i) * S + s) div S = b * W + i" using assms by simp
  have "((b * W + i) * S + s) div (W * S) = ((b * W + i) * S + s) div S div W"
    by (simp only: div_mult2_eq mult.commute[of W S])
  also have "\<dots> = b" unfolding d using assms by simp
  finally show ?thesis .
qed

lemma flat_index3_mid:
  fixes b i s W S :: nat
  assumes "i < W" "s < S"
  shows "(((b * W + i) * S + s) div S) mod W = i"
proof -
  have d: "((b * W + i) * S + s) div S = b * W + i" using assms by simp
  show ?thesis unfolding d using assms by simp
qed

lemma flat_index3_mod:
  fixes b i s W S :: nat
  assumes "s < S"
  shows "((b * W + i) * S + s) mod S = s"
  using assms by simp

lemma unflat_index3:
  fixes k B W S :: nat
  assumes "k < B * W * S"
  shows "k div (W * S) < B" and "(k div S) mod W < W" and "k mod S < S"
proof -
  have S: "0 < S" using assms by (cases "S = 0") simp_all
  have W: "0 < W" using assms by (cases "W = 0") simp_all
  show "k mod S < S" using S by simp
  show "(k div S) mod W < W" using W by simp
  have "k < B * (W * S)" using assms by (simp only: mult.assoc)
  then show "k div (W * S) < B" using S W
    by (simp only: less_mult_imp_div_less)
qed

lemma flat_index4_lt:
  fixes b x d c B X D C :: nat
  assumes "b < B" "x < X" "d < D" "c < C"
  shows "((b * X + x) * D + d) * C + c < B * X * D * C"
  using flat_index3_lt[OF flat_index2(1)[OF assms(1,2)] assms(3,4)] .

lemma flat_index4_parts:
  fixes b x d c X D C :: nat
  assumes "x < X" "d < D" "c < C"
  shows "(((b * X + x) * D + d) * C + c) div (X * D * C) = b"
    and "((((b * X + x) * D + d) * C + c) div (D * C)) mod X = x"
    and "((((b * X + x) * D + d) * C + c) div C) mod D = d"
    and "(((b * X + x) * D + d) * C + c) mod C = c"
proof -
  let ?k = "((b * X + x) * D + d) * C + c"
  have dC: "?k div C = (b * X + x) * D + d" using assms by simp
  show "?k mod C = c" using assms by simp
  show "(?k div C) mod D = d" unfolding dC using assms by simp
  have dDC: "?k div (D * C) = b * X + x"
  proof -
    have "?k div (D * C) = ?k div C div D" by (simp only: div_mult2_eq mult.commute[of D C])
    also have "\<dots> = b * X + x" unfolding dC using assms by simp
    finally show ?thesis .
  qed
  show "(?k div (D * C)) mod X = x" unfolding dDC using assms by simp
  have "?k div (X * D * C) = ?k div (D * C) div X"
    by (simp only: div_mult2_eq mult.commute[of X "D * C"] mult.assoc)
  also have "\<dots> = b" unfolding dDC using assms by simp
  finally show "?k div (X * D * C) = b" .
qed

lemma at2_tabulate2:
  assumes "b < B" "i < W"
  shows "at2 (tabulate2 B W g) b i = g b i"
  using flat_index2[OF assms] by (simp add: at2_def tabulate2_def)

lemma at3_tabulate3:
  assumes "b < B" "i < W" "s < S"
  shows "at3 (tabulate3 B W S g) b i s = g b i s"
  using flat_index3_lt[OF assms] flat_index3_div[OF assms(2,3), of b]
    flat_index3_mid[OF assms(2,3), of b] flat_index3_mod[OF assms(3), of b W i]
  by (simp add: at3_def tabulate3_def)

lemma at4_tabulate4:
  assumes "b < B" "x < X" "d < D" "c < C"
  shows "at4 (tabulate4 B X D C g) b x d c = g b x d c"
  using flat_index4_lt[OF assms] flat_index4_parts[OF assms(2,3,4), of b]
  by (simp add: at4_def tabulate4_def)

lemma tabulate3_cong:
  assumes "\<And>b i s. b < B \<Longrightarrow> i < W \<Longrightarrow> s < S \<Longrightarrow> g b i s = h b i s"
  shows "tabulate3 B W S g = tabulate3 B W S h"
proof -
  have "g (k div (W * S)) ((k div S) mod W) (k mod S) = h (k div (W * S)) ((k div S) mod W) (k mod S)"
    if "k < B * W * S" for k
    using assms unflat_index3[OF that] by blast
  then show ?thesis by (simp add: tabulate3_def)
qed

section \<open>Down-sampling\<close>

lemma reshape_blocks:
  assumes "shape inputs = [B, W]" "0 < f" "f dvd W" "0 < W"
  shows "tf_reshape inputs [- 1, int W div int f, int f] =
           Inr \<lparr>shape = [B, W div f, f], entries = entries inputs\<rparr>"
proof -
  have k: "int W div int f * int f = int W"
    using assms by (metis dvd_div_mult_self of_nat_dvd_iff)
  have pos: "int W div int f \<noteq> 0" using k assms by auto
  have d: "int B * int W div int W = int B" using assms by simp
  have nn: "int W div int f = int (W div f)" by (simp add: zdiv_int)
  have ge: "\<not> int W div int f < - 1" using nn by linarith
  have ne: "int W div int f \<noteq> - 1" using nn by linarith
  show ?thesis
    using assms k pos d ge ne
    by (simp add: tf_reshape_def Let_def nn)
qed


lemma block_mean_entry:
  assumes "shape inputs = [B, W]" "0 < f" "f dvd W" "b < B" "j < W div f"
  shows "entries (reduce_mean_last False \<lparr>shape = [B, W div f, f], entries = entries inputs\<rparr>)
           ! (b * (W div f) + j)
         = (\<Sum>t<f. at2 inputs b (f * j + t)) / real f"
proof -
  have lt: "b * (W div f) + j < B * (W div f)"
    using flat_index2(1)[OF assms(4,5)] .
  have W: "W div f * f = W" using assms by simp
  have idx: "\<And>t. (b * (W div f) + j) * f + t = b * W + (f * j + t)"
    using W by (simp add: algebra_simps)
  show ?thesis
    using lt assms(1)
    by (simp add: reduce_mean_last_def Let_def at2_def idx
          interv_sum_list_conv_sum_set_nat atLeast0LessThan)
qed

lemma resample_mean_eq:
  assumes sh: "shape inputs = [B, W]" and f: "0 < f" and dv: "f dvd W" and W: "0 < W"
  shows "resample_mean inputs (int f) =
           Inr (reduce_mean_last False \<lparr>shape = [B, W div f, f], entries = entries inputs\<rparr>)"
proof -
  have m: "int W mod int f = 0" using dv by (metis dvd_imp_mod_0 of_nat_dvd_iff)
  show ?thesis
    using sh f m reshape_blocks[OF sh f dv W]
    by (simp add: resample_mean_def bind_def)
qed

text \<open>
  Claim C8. For a rank-2 input of positive width \<open>W\<close> and a positive factor \<open>f\<close> that
  divides \<open>W\<close>, \<open>resample_mean\<close> returns a tensor of shape \<open>[B, W div f]\<close> whose entry
  \<open>j\<close> of every batch row is the arithmetic mean of the \<open>f\<close> input values at positions
  \<open>f * j, \<dots>, f * j + f - 1\<close> of that row.
\<close>

theorem resample_mean_block_means:
  assumes sh: "shape inputs = [B, W]" and f: "0 < f" and dv: "f dvd W" and W: "0 < W"
  shows "\<exists>out. resample_mean inputs (int f) = Inr out
           \<and> shape out = [B, W div f]
           \<and> (\<forall>b<B. \<forall>j<W div f. at2 out b j = (\<Sum>t<f. at2 inputs b (f * j + t)) / real f)"
proof -
  define out where
    "out = reduce_mean_last False \<lparr>shape = [B, W div f, f], entries = entries inputs\<rparr>"
  have r: "resample_mean inputs (int f) = Inr out"
    unfolding out_def by (rule resample_mean_eq[OF assms])
  have s: "shape out = [B, W div f]" by (simp add: out_def reduce_mean_last_def Let_def)
  have "at2 out b j = (\<Sum>t<f. at2 inputs b (f * j + t)) / real f"
    if "b < B" "j < W div f" for b j
    using block_mean_entry[OF sh f dv that] s by (simp add: at2_def out_def)
  with r s show ?thesis by blast
qed

text \<open>The scenario of the claim: width 16 and factor 4 give width 4, here on the field
  \<open>0, 1, \<dots>, 15\<close>; the second output is the mean of the inputs at positions 4 to 7.\<close>

theorem resample_mean_block_means_witness:
  "shape (field_of_width 16) = [1, 16] \<and> (0::nat) < 4 \<and> (4::nat) dvd 16 \<and> (0::nat) < 16
   \<and> resample_mean (field_of_width 16) 4
       = Inr \<lparr>shape = [1, 4], entries = [3 / 2, 11 / 2, 19 / 2, 27 / 2]\<rparr>
   \<and> at2 \<lparr>shape = [1, 4], entries = [3 / 2, 11 / 2, 19 / 2, 27 / 2]\<rparr> 0 1
       = (\<Sum>t<4. at2 (field_of_width 16) 0 (4 * 1 + t)) / 4"
proof -
  have sh: "shape (field_of_width 16) = [1, 16]" by (simp add: field_of_width_def)
  have ev: "resample_mean (field_of_width 16) 4 =
      Inr \<lparr>shape = [1, 4], entries = [3 / 2, 11 / 2, 19 / 2, 27 / 2]\<rparr>"
    by code_simp
  obtain out where o: "resample_mean (field_of_width 16) (int 4) = Inr out"
    and a: "\<forall>b<1. \<forall>j<16 div 4. at2 out b j
              = (\<Sum>t<4. at2 (field_of_width 16) b (4 * j + t)) / real 4"
    using resample_mean_block_means[OF sh, of 4] by auto
  have "out = \<lparr>shape = [1, 4], entries = [3 / 2, 11 / 2, 19 / 2, 27 / 2]\<rparr>"
    using o ev by simp
  moreover have "at2 out 0 1 = (\<Sum>t<4. at2 (field_of_width 16) 0 (4 * 1 + t)) / 4"
    using a by simp
  ultimately show ?thesis using sh ev by simp
qed




section \<open>Periodic patches\<close>

lemma extract_patches_eq:
  assumes sh: "shape inputs = [B, W]" and S: "1 \<le> S"
  shows "extract_patches ext inputs (int S) =
           Inr (tabulate3 B W S (\<lambda>b i s. at2 inputs b
                  (nat ((int i + int s - centering_offset ext (int S - 1)) mod int W))))"
proof -
  define off where "off = centering_offset ext (int S - 1)"
  define H where "H = W + S - 1"
  define padded where "padded = tabulate3 B H 1
      (\<lambda>b j c. at3 (newaxis_last inputs) b (nat ((int j - off) mod int W)) c)"
  have H: "nat (int W + (int S - 1)) = H"
    using S by (simp add: H_def nat_add_distrib nat_diff_distrib)
  have pad: "pad_periodic ext (newaxis_last inputs) (int S - 1) True = Inr padded"
    using sh by (simp add: pad_periodic_def newaxis_last_def padded_def off_def H Let_def)
  have shp: "shape (newaxis_last padded) = [B, H, 1, 1]"
    by (simp add: newaxis_last_def padded_def tabulate3_def)
  have HS: "H + 1 - S = W" using S by (simp add: H_def)
  have ext: "extract_image_patches (newaxis_last padded) (int S) =
      Inr (tabulate4 B W 1 S (\<lambda>b i v k. at4 (newaxis_last padded) b (i + k) v 0))"
    using S shp by (simp add: extract_image_patches_def Let_def HS H_def)
  have sq: "squeeze_third (tabulate4 B W 1 S g) =
      Inr \<lparr>shape = [B, W, S], entries = entries (tabulate4 B W 1 S g)\<rparr>" for g
    by (simp add: squeeze_third_def tabulate4_def)
  have ent: "entries (tabulate4 B W 1 S (\<lambda>b i v k. at4 (newaxis_last padded) b (i + k) v 0))
      = entries (tabulate3 B W S (\<lambda>b i s. at2 inputs b (nat ((int i + int s - off) mod int W))))"
  proof -
    have "at4 (newaxis_last padded) (k div (W * S)) ((k div S) mod W + k mod S) 0 0 =
          at2 inputs (k div (W * S))
            (nat ((int ((k div S) mod W) + int (k mod S) - off) mod int W))"
      if k: "k < B * W * S" for k
    proof -
      let ?b = "k div (W * S)" and ?i = "(k div S) mod W" and ?s = "k mod S"
      have b: "?b < B" and i: "?i < W" and s: "?s < S" using unflat_index3[OF k] by auto
      have j: "?i + ?s < H" using i s by (simp add: H_def)
      have "at4 (newaxis_last padded) ?b (?i + ?s) 0 0 = at3 padded ?b (?i + ?s) 0"
        by (simp add: at4_def at3_def newaxis_last_def padded_def tabulate3_def)
      also have "\<dots> = at3 (newaxis_last inputs) ?b (nat ((int (?i + ?s) - off) mod int W)) 0"
        unfolding padded_def using at3_tabulate3[OF b j, of 0 1] by simp
      also have "\<dots> = at2 inputs ?b (nat ((int (?i + ?s) - off) mod int W))"
        using sh by (simp add: at3_def at2_def newaxis_last_def)
      finally show ?thesis by simp
    qed
    then show ?thesis by (simp add: tabulate4_def tabulate3_def)
  qed
  show ?thesis
    unfolding extract_patches_def pad bind_def
    using ext sq ent by (simp add: off_def tabulate3_def)
qed

lemma wrap_lt: "0 < W \<Longrightarrow> nat (x mod int W) < W"
  by (simp add: nat_less_iff)

lemma wrap_shift:
  assumes "0 < W"
  shows "(int (nat ((a + s - off) mod int W)) - k) mod int W
       = (int (nat ((a - k) mod int W)) + s - off) mod int W"
proof -
  have "(int (nat ((a + s - off) mod int W)) - k) mod int W
          = ((a + s - off) mod int W - k) mod int W"
    using assms by simp
  also have "\<dots> = (a + s - off - k) mod int W" by (simp add: mod_diff_left_eq)
  also have "\<dots> = ((a - k) + (s - off)) mod int W" by (simp add: algebra_simps)
  also have "\<dots> = ((a - k) mod int W + (s - off)) mod int W" by (simp add: mod_add_left_eq)
  also have "\<dots> = (int (nat ((a - k) mod int W)) + s - off) mod int W"
    using assms by (simp add: algebra_simps)
  finally show ?thesis .
qed

text \<open>
  Claim C3. For a batch of \<open>B\<close> fields of width \<open>W\<close> and a window size \<open>S \<ge> 1\<close>,
  \<open>extract_patches\<close> returns a tensor of shape \<open>[B, W, S]\<close> whose patch at position
  \<open>i\<close> holds the \<open>S\<close> consecutive field values starting at \<open>i\<close> minus the centering
  offset, indices wrapped modulo \<open>W\<close>; and the patches of the field shifted circularly
  by any integer \<open>k\<close> are the patches of the field, shifted by \<open>k\<close> along the position
  axis.
\<close>

theorem extract_patches_periodic_equivariant:
  assumes sh: "shape inputs = [B, W]" and S: "1 \<le> S"
  shows "\<exists>patches. extract_patches ext inputs (int S) = Inr patches
           \<and> shape patches = [B, W, S]
           \<and> (\<forall>b<B. \<forall>i<W. \<forall>s<S. at3 patches b i s =
                 at2 inputs b (nat ((int i - centering_offset ext (int S - 1) + int s) mod int W)))
           \<and> (\<forall>k. extract_patches ext (roll_field inputs k) (int S)
                     = Inr (roll_patches patches k))"
proof -
  define off where "off = centering_offset ext (int S - 1)"
  define g where "g = (\<lambda>t b i s. at2 t b (nat ((int i + int s - off) mod int W)))"
  define patches where "patches = tabulate3 B W S (g inputs)"
  have eq: "extract_patches ext inputs (int S) = Inr patches"
    using extract_patches_eq[OF sh S, of ext] by (simp add: patches_def g_def off_def)
  have shp: "shape patches = [B, W, S]" by (simp add: patches_def tabulate3_def)
  have at: "at3 patches b i s = g inputs b i s" if "b < B" "i < W" "s < S" for b i s
    unfolding patches_def using that by (rule at3_tabulate3)
  have roll: "extract_patches ext (roll_field inputs k) (int S) = Inr (roll_patches patches k)"
    for k
  proof -
    have shr: "shape (roll_field inputs k) = [B, W]"
      using sh by (simp add: roll_field_def tabulate2_def)
    have l: "extract_patches ext (roll_field inputs k) (int S) =
               Inr (tabulate3 B W S (g (roll_field inputs k)))"
      using extract_patches_eq[OF shr S, of ext] by (simp add: g_def off_def)
    have "g (roll_field inputs k) b i s = at3 patches b (nat ((int i - k) mod int W)) s"
      if b: "b < B" and i: "i < W" and s: "s < S" for b i s
    proof -
      have W: "0 < W" using i by simp
      have "g (roll_field inputs k) b i s =
              at2 inputs b (nat ((int (nat ((int i + int s - off) mod int W)) - k) mod int W))"
        unfolding g_def roll_field_def using sh at2_tabulate2[OF b wrap_lt[OF W]] by simp
      also have "\<dots> =
          at2 inputs b (nat ((int (nat ((int i - k) mod int W)) + int s - off) mod int W))"
        by (simp only: wrap_shift[OF W])
      also have "\<dots> = at3 patches b (nat ((int i - k) mod int W)) s"
        using at[OF b wrap_lt[OF W] s] by (simp add: g_def)
      finally show ?thesis .
    qed
    then have "tabulate3 B W S (g (roll_field inputs k)) =
        tabulate3 B W S (\<lambda>b i s. at3 patches b (nat ((int i - k) mod int W)) s)"
      by (intro tabulate3_cong) simp
    then have "tabulate3 B W S (g (roll_field inputs k)) = roll_patches patches k"
      by (simp add: roll_patches_def shp)
    with l show ?thesis by simp
  qed
  have "at3 patches b i s = at2 inputs b (nat ((int i - off + int s) mod int W))"
    if "b < B" "i < W" "s < S" for b i s
    using at[OF that] by (simp add: g_def algebra_simps)
  with eq shp roll show ?thesis unfolding off_def by blast
qed

text \<open>On the field \<open>[1, 2, 4]\<close> with windows of size 3 and centering offset 1: the patch
  at position 0 starts at the wrapped position 2, and shifting the field by one
  position shifts the patches by one.\<close>

theorem extract_patches_periodic_equivariant_witness:
  "shape example_field = [1, 3] \<and> (1::nat) \<le> 3
   \<and> extract_patches example_externals example_field 3
       = Inr \<lparr>shape = [1, 3, 3], entries = [4, 1, 2, 1, 2, 4, 2, 4, 1]\<rparr>
   \<and> at3 \<lparr>shape = [1, 3, 3], entries = [4, 1, 2, 1, 2, 4, 2, 4, 1]\<rparr> 0 0 0
       = at2 example_field 0 2
   \<and> extract_patches example_externals (roll_field example_field 1) 3
       = Inr (roll_patches \<lparr>shape = [1, 3, 3], entries = [4, 1, 2, 1, 2, 4, 2, 4, 1]\<rparr> 1)"
proof -
  have sh: "shape example_field = [1, 3]" by (simp add: example_field_def)
  have ev: "extract_patches example_externals example_field 3
              = Inr \<lparr>shape = [1, 3, 3], entries = [4, 1, 2, 1, 2, 4, 2, 4, 1]\<rparr>"
    by code_simp
  have off: "centering_offset example_externals (int 3 - 1) = 1"
    by (simp add: example_externals_def)
  obtain patches where p: "extract_patches example_externals example_field (int 3) = Inr patches"
    and a: "\<forall>b<1. \<forall>i<3. \<forall>s<3. at3 patches b i s =
              at2 example_field b
                (nat ((int i - centering_offset example_externals (int 3 - 1) + int s) mod int 3))"
    and r: "\<forall>k. extract_patches example_externals (roll_field example_field k) (int 3)
                  = Inr (roll_patches patches k)"
    using extract_patches_periodic_equivariant[OF sh, of 3 example_externals] by auto
  have eqp: "patches = \<lparr>shape = [1, 3, 3], entries = [4, 1, 2, 1, 2, 4, 2, 4, 1]\<rparr>"
    using p ev by simp
  have "at3 patches 0 0 0 = at2 example_field 0 (nat ((int 0 - 1 + int 0) mod int 3))"
    using a off by simp
  then have a0: "at3 patches 0 0 0 = at2 example_field 0 2" by simp
  have r1: "extract_patches example_externals (roll_field example_field 1) 3
              = Inr (roll_patches patches 1)"
    using r by simp
  show ?thesis using sh ev a0 r1 unfolding eqp by simp
qed

section \<open>Coefficient prediction\<close>

lemma predict_coefficients_zero_layers:
  assumes nl: "num_layers hp = 0"
    and eq: "from_hparams ext (PyHParams hp) = Inr eqt"
    and sh: "shape inputs = [B, X]"
  shows "predict_coefficients ext inputs (PyHParams hp) training =
           Inr (tile_leading
                  (get_variable ext ''coefficients''
                     [length (DERIVATIVE_ORDERS eqt),
                      length (regular_finite_difference_grid ext (GRID_OFFSET eqt) 0
                                (Some (coefficient_grid_min_size hp)) None)])
                  B X)"
  using assms by (simp add: predict_coefficients_def bind_def hparams_attributes_def Let_def)

text \<open>
  Claim C9. With \<open>num_layers = 0\<close>, \<open>predict_coefficients\<close> returns a tensor of shape
  \<open>[batch, x, derivative, coefficient]\<close> that is constant along the batch and position
  axes: at every batch element and position the coefficient vector of a derivative
  order is the corresponding row of the single learned variable \<open>coefficients\<close>; and
  the result is the same for every input field of the same shape.
\<close>

theorem predict_coefficients_zero_layers_constant:
  assumes nl: "num_layers hp = 0"
    and eq: "from_hparams ext (PyHParams hp) = Inr eqt"
    and sh: "shape inputs = [B, X]"
    and D: "D = length (DERIVATIVE_ORDERS eqt)"
    and G: "G = length (regular_finite_difference_grid ext (GRID_OFFSET eqt) 0
                          (Some (coefficient_grid_min_size hp)) None)"
  shows "\<exists>out. predict_coefficients ext inputs (PyHParams hp) training = Inr out
           \<and> shape out = [B, X, D, G]
           \<and> (\<forall>b<B. \<forall>x<X. \<forall>b'<B. \<forall>x'<X. \<forall>d<D. \<forall>c<G.
                 at4 out b x d c = at4 out b' x' d c
                 \<and> at4 out b x d c = at2 (get_variable ext ''coefficients'' [D, G]) d c)
           \<and> (\<forall>inputs'. shape inputs' = shape inputs \<longrightarrow>
                 predict_coefficients ext inputs' (PyHParams hp) training = Inr out)"
proof -
  define coefficients where "coefficients = get_variable ext ''coefficients'' [D, G]"
  define out where "out = tile_leading coefficients B X"
  have shc: "shape coefficients = [D, G]" by (simp add: coefficients_def get_variable_def)
  have r: "predict_coefficients ext t (PyHParams hp) training = Inr out"
    if "shape t = [B, X]" for t
    using predict_coefficients_zero_layers[OF nl eq that, of training]
    by (simp add: out_def coefficients_def D G)
  have sho: "shape out = [B, X, D, G]"
    by (simp add: out_def tile_leading_def tabulate4_def shc)
  have at: "at4 out b x d c = at2 coefficients d c"
    if "b < B" "x < X" "d < D" "c < G" for b x d c
    unfolding out_def tile_leading_def shc using at4_tabulate4[OF that] by simp
  show ?thesis
    using r[OF sh] r sho at sh unfolding coefficients_def[symmetric]
    by (intro exI[of _ out]) simp
qed

text \<open>With the concrete collaborators and no layers, the central-difference row
  \<open>[-1/2, 0, 1/2]\<close> is repeated at the three positions, whatever the field holds.\<close>

theorem predict_coefficients_zero_layers_constant_witness:
  "num_layers example_hparams = 0
   \<and> from_hparams example_externals (PyHParams example_hparams) = Inr (example_equation [1])
   \<and> shape example_field = [1, 3]
   \<and> predict_coefficients example_externals example_field (PyHParams example_hparams) True
       = Inr \<lparr>shape = [1, 3, 1, 3],
              entries = [- (1 / 2), 0, 1 / 2, - (1 / 2), 0, 1 / 2, - (1 / 2), 0, 1 / 2]\<rparr>
   \<and> at4 \<lparr>shape = [1, 3, 1, 3],
            entries = [- (1 / 2), 0, 1 / 2, - (1 / 2), 0, 1 / 2, - (1 / 2), 0, 1 / 2]\<rparr> 0 0 0 2
       = at4 \<lparr>shape = [1, 3, 1, 3],
              entries = [- (1 / 2), 0, 1 / 2, - (1 / 2), 0, 1 / 2, - (1 / 2), 0, 1 / 2]\<rparr> 0 2 0 2
   \<and> predict_coefficients example_externals \<lparr>shape = [1, 3], entries = [7, 8, 9]\<rparr>
         (PyHParams example_hparams) True
       = Inr \<lparr>shape = [1, 3, 1, 3],
              entries = [- (1 / 2), 0, 1 / 2, - (1 / 2), 0, 1 / 2, - (1 / 2), 0, 1 / 2]\<rparr>"
proof -
  let ?out = "\<lparr>shape = [1, 3, 1, 3],
               entries = [- (1 / 2), 0, 1 / 2, - (1 / 2), 0, 1 / 2, - (1 / 2), 0, 1 / 2]\<rparr>"
  have nl: "num_layers example_hparams = 0" by (simp add: example_hparams_def)
  have eq: "from_hparams example_externals (PyHParams example_hparams)
              = Inr (example_equation [1])"
    by (simp add: example_externals_def example_hparams_def)
  have sh: "shape example_field = [1, 3]" by (simp add: example_field_def)
  have D: "1 = length (DERIVATIVE_ORDERS (example_equation [1]))"
    by (simp add: example_equation_def)
  have G: "3 = length (regular_finite_difference_grid example_externals
                         (GRID_OFFSET (example_equation [1])) 0
                         (Some (coefficient_grid_min_size example_hparams)) None)"
    by (simp add: example_externals_def)
  have ev: "predict_coefficients example_externals example_field (PyHParams example_hparams) True
              = Inr ?out"
    by code_simp
  obtain out where o: "predict_coefficients example_externals example_field
                         (PyHParams example_hparams) True = Inr out"
    and c: "\<forall>b<1. \<forall>x<3. \<forall>b'<1. \<forall>x'<3. \<forall>d<1. \<forall>c<3.
              at4 out b x d c = at4 out b' x' d c
              \<and> at4 out b x d c = at2 (get_variable example_externals ''coefficients'' [1, 3]) d c"
    and i: "\<forall>inputs'. shape inputs' = shape example_field \<longrightarrow>
              predict_coefficients example_externals inputs' (PyHParams example_hparams) True
                = Inr out"
    using predict_coefficients_zero_layers_constant[OF nl eq sh D G, of True] by auto
  have eqo: "out = ?out" using o ev by simp
  have c0: "at4 out 0 0 0 2 = at4 out 0 2 0 2" using c by simp
  have i0: "predict_coefficients example_externals \<lparr>shape = [1, 3], entries = [7, 8, 9]\<rparr>
              (PyHParams example_hparams) True = Inr out"
    using i sh by simp
  show ?thesis using nl eq sh ev c0 i0 unfolding eqo by simp
qed

lemma sum_centered_zero:
  fixes f :: "nat \<Rightarrow> real"
  shows "(\<Sum>c<G. (f c - (\<Sum>j<G. f j) / real G)) = 0"
  by (cases "G = 0") (simp_all add: sum_subtractf)

text \<open>
  Claim C4. With \<open>ensure_unbiased_coefficients\<close> enabled, \<open>num_layers\<close> positive,
  \<open>polynomial_accuracy_order\<close> not set and 0 not among the derivative orders of the
  equation, every coefficient vector of the tensor that \<open>predict_coefficients\<close> returns
  sums to zero along the coefficient axis: for every input field, batch element,
  position and derivative order.
\<close>

theorem unbiased_coefficients_sum_to_zero:
  assumes eq: "from_hparams ext (PyHParams hp) = Inr eqt"
    and unb: "ensure_unbiased_coefficients hp"
    and nl: "0 < num_layers hp"
    and pao: "polynomial_accuracy_order hp = 0"
    and z: "0 \<notin> set (DERIVATIVE_ORDERS eqt)"
    and res: "predict_coefficients ext inputs (PyHParams hp) training = Inr out"
  shows "\<exists>B X D G. shape inputs = [B, X] \<and> shape out = [B, X, D, G]
           \<and> D = length (DERIVATIVE_ORDERS eqt)
           \<and> (\<forall>b<B. \<forall>x<X. \<forall>d<D. (\<Sum>c<G. at4 out b x d c) = 0)"
proof -
  define D where "D = length (DERIVATIVE_ORDERS eqt)"
  define G where "G = length (regular_finite_difference_grid ext (GRID_OFFSET eqt) 0
                          (Some (coefficient_grid_min_size hp)) None)"
  obtain net0 where n0: "newaxis_third inputs = Inr net0"
    using res eq nl by (cases "newaxis_third inputs")
      (auto simp: predict_coefficients_def bind_def hparams_attributes_def Let_def)
  define net3 where "net3 = conv1d_periodic_layer ext (nat (num_layers hp - 1))
      (hidden_layers ext (filter_size hp) (nat (num_layers hp - 1))
         (batch_normalization ext net0 training))
      (int (D * G)) 3 NoActivation True"
  obtain outputs where
    rs: "tf_reshape net3 (map int (shape inputs) @ [int D, int G]) = Inr outputs"
    using res eq nl pao n0
    by (cases "tf_reshape net3 (map int (shape inputs) @ [int D, int G])")
      (auto simp: predict_coefficients_def bind_def hparams_attributes_def Let_def
         net3_def D_def G_def)
  have rk: "length (shape inputs) = 2"
    using res eq nl pao n0 rs
    by (auto simp: predict_coefficients_def bind_def hparams_attributes_def Let_def
         net3_def D_def G_def split: if_splits)
  then obtain B X where sh: "shape inputs = [B, X]"
    by (cases "shape inputs"; simp) (metis length_0_conv Suc_length_conv)
  have out: "out = subtract_broadcast_last outputs (reduce_mean_last True outputs)"
    using res eq nl pao n0 rs rk unb z
    by (auto simp: predict_coefficients_def bind_def hparams_attributes_def Let_def
         net3_def D_def G_def split: if_splits)
  have sho: "shape outputs = [B, X, D, G]"
    using rs sh by (auto simp: tf_reshape_def Let_def split: if_splits)
  have shout: "shape out = [B, X, D, G]"
    by (simp add: out subtract_broadcast_last_def sho)
  have "(\<Sum>c<G. at4 out b x d c) = 0" if b: "b < B" and x: "x < X" and d: "d < D" for b x d
  proof -
    define j where "j = (b * X + x) * D + d"
    have j: "j < B * X * D" unfolding j_def using flat_index3_lt[OF b x d] .
    have e: "at4 out b x d c = entries outputs ! (j * G + c)
               - (\<Sum>i<G. entries outputs ! (j * G + i)) / real G" if c: "c < G" for c
    proof -
      have lt: "j * G + c < B * X * D * G"
        unfolding j_def using flat_index4_lt[OF b x d c] .
      have dv: "(j * G + c) div G = j" using c by simp
      show ?thesis
        using lt j dv
        by (simp add: at4_def shout out subtract_broadcast_last_def reduce_mean_last_def sho
            Let_def j_def[symmetric] interv_sum_list_conv_sum_set_nat atLeast0LessThan)
    qed
    have "(\<Sum>c<G. at4 out b x d c) =
          (\<Sum>c<G. (entries outputs ! (j * G + c)
                    - (\<Sum>i<G. entries outputs ! (j * G + i)) / real G))"
      by (rule sum.cong) (simp_all add: e)
    also have "\<dots> = 0" by (rule sum_centered_zero)
    finally show ?thesis .
  qed
  with sh shout show ?thesis unfolding D_def by blast
qed

text \<open>With two layers the concrete network yields the rows \<open>[1, 2, 3]\<close>, \<open>[2, 4, 6]\<close>
  and \<open>[4, 8, 12]\<close>, which leave the function centred.\<close>

theorem unbiased_coefficients_sum_to_zero_witness:
  "from_hparams example_externals (PyHParams (example_hparams\<lparr>num_layers := 2\<rparr>))
       = Inr (example_equation [1])
   \<and> ensure_unbiased_coefficients (example_hparams\<lparr>num_layers := 2\<rparr>)
   \<and> 0 < num_layers (example_hparams\<lparr>num_layers := 2\<rparr>)
   \<and> polynomial_accuracy_order (example_hparams\<lparr>num_layers := 2\<rparr>) = 0
   \<and> 0 \<notin> set (DERIVATIVE_ORDERS (example_equation [1]))
   \<and> predict_coefficients example_externals example_field
         (PyHParams (example_hparams\<lparr>num_layers := 2\<rparr>)) True
       = Inr \<lparr>shape = [1, 3, 1, 3], entries = [- 1, 0, 1, - 2, 0, 2, - 4, 0, 4]\<rparr>
   \<and> (\<Sum>c<3. at4 \<lparr>shape = [1, 3, 1, 3], entries = [- 1, 0, 1, - 2, 0, 2, - 4, 0, 4]\<rparr> 0 2 0 c)
       = 0"
proof -
  let ?hp = "example_hparams\<lparr>num_layers := 2\<rparr>"
  let ?out = "\<lparr>shape = [1, 3, 1, 3], entries = [- 1, 0, 1, - 2, 0, 2, - 4, 0, 4]\<rparr>"
  have eq: "from_hparams example_externals (PyHParams ?hp) = Inr (example_equation [1])"
    by (simp add: example_externals_def example_hparams_def)
  have unb: "ensure_unbiased_coefficients ?hp" and nl: "0 < num_layers ?hp"
    and pao: "polynomial_accuracy_order ?hp = 0"
    by (simp_all add: example_hparams_def)
  have z: "0 \<notin> set (DERIVATIVE_ORDERS (example_equation [1]))"
    by (simp add: example_equation_def)
  have ev: "predict_coefficients example_externals example_field (PyHParams ?hp) True = Inr ?out"
    by code_simp
  obtain B X D G where s1: "shape example_field = [B, X]" and s2: "shape ?out = [B, X, D, G]"
    and sm: "\<forall>b<B. \<forall>x<X. \<forall>d<D. (\<Sum>c<G. at4 ?out b x d c) = 0"
    using unbiased_coefficients_sum_to_zero[OF eq unb nl pao z ev] by blast
  have "B = 1" "X = 3" "D = 1" "G = 3" using s1 s2 by (simp_all add: example_field_def)
  with sm have "(\<Sum>c<3. at4 ?out 0 2 0 c) = 0" by simp
  with eq unb nl pao z ev show ?thesis by simp
qed




section \<open>The positions of the derivatives\<close>









section \<open>The time derivative alone\<close>

text \<open>\<open>predict_time_derivative\<close> hands the field to \<open>predict_space_derivatives\<close> in
  the place of the hyperparameters, so the call never returns: either
  \<open>equations.from_hparams\<close> rejects the tensor, or the first hyperparameter read
  raises \<open>AttributeError\<close>.\<close>

lemma predict_time_derivative_always_raises:
  "\<exists>e. predict_time_derivative ext inputs hparams = Inl e"
  by (cases "from_hparams ext (PyTensor inputs)")
    (simp_all add: predict_time_derivative_def predict_space_derivatives_def
       predict_coefficients_def bind_def hparams_attributes_def)

text \<open>
  Claim C1 asks that \<open>predict_time_derivative inputs hparams\<close> equal
  \<open>apply_space_derivatives (predict_space_derivatives inputs hparams) inputs hparams\<close>.
  On the field \<open>[1, 2, 4]\<close> with the ``advection'' configuration the composition
  returns \<open>[1, -3/2, 1/2]\<close>, as the sibling \<open>predict_all_derivatives\<close> has it in its
  last channel, while \<open>predict_time_derivative\<close> raises \<open>AttributeError\<close>.
\<close>

theorem predict_time_derivative_passes_inputs_as_hparams:
  "predict_time_derivative example_externals example_field (PyHParams example_hparams)
     = Inl AttributeError
   \<and> bind (predict_space_derivatives example_externals example_field (PyHParams example_hparams))
       (\<lambda>space_derivatives.
          apply_space_derivatives example_externals space_derivatives example_field
            (PyHParams example_hparams))
     = Inr \<lparr>shape = [1, 3], entries = [1, - (3 / 2), 1 / 2]\<rparr>"
  by code_simp

section \<open>Loss scales\<close>

text \<open>The result of \<open>determine_loss_scales\<close> on a non-empty dataset of shape
  \<open>[N, X, D]\<close> with a quantile in \<open>[0, 1]\<close>, written out: the error floor, the two
  loss components of the all-zero prediction, and the scale of each head and channel.\<close>

lemma determine_loss_scales_eq:
  assumes ld: "load snapshots hp True False = dat"
    and sl: "shape (labels dat) = [N, X, D]" and sb: "shape (baseline dat) = [N, X, D]"
    and ne: "0 < N * X"
    and q0: "0 \<le> error_floor_quantile hp" and q1: "error_floor_quantile hp \<le> 1"
  defines "L \<equiv> entries (labels dat)" and "C \<equiv> entries (baseline dat)"
  defines "fl \<equiv> \<lparr>shape = [D],
      entries = map (\<lambda>d. max (percentile_of_sample
                                (map (\<lambda>m. (L ! (m * D + d) - C ! (m * D + d))\<^sup>2) [0..<N * X])
                                (100 * error_floor_quantile hp)) (1 / 10 ^ 12)) [0..<D]\<rparr>"
  defines "me \<equiv> \<lparr>shape = [N, X, D], entries = map (\<lambda>k. (L ! k)\<^sup>2) [0..<N * X * D]\<rparr>"
  defines "re \<equiv> \<lparr>shape = [N, X, D],
      entries = map (\<lambda>k. (L ! k)\<^sup>2 / ((L ! k - C ! k)\<^sup>2 + entries fl ! (k mod D)))
                  [0..<N * X * D]\<rparr>"
  shows "loss_components (zeros_like (labels dat)) (labels dat) (baseline dat) fl = Inr (me, re)"
    and "determine_loss_scales load snapshots hp =
           Inr (fl, \<lparr>shape = [2, D],
                     entries = map (\<lambda>j. let mu = (if j < D then channel_mean me j
                                                   else channel_mean re (j - D))
                                         in if 0 < mu then 1 / mu else 0) [0..<2 * D]\<rparr>)"
proof -
  define be where "be = \<lparr>shape = [N, X, D],
      entries = map (\<lambda>k. (L ! k - C ! k)\<^sup>2) [0..<N * X * D]\<rparr>"
  have be: "elementwise (\<lambda>l b. (l - b)\<^sup>2) (labels dat) (baseline dat) = Inr be"
    using sl sb by (simp add: elementwise_def be_def L_def C_def mult.assoc)
  have me: "elementwise (\<lambda>l p. (l - p)\<^sup>2) (labels dat) (zeros_like (labels dat)) = Inr me"
    using sl by (simp add: elementwise_def me_def L_def zeros_like_def mult.assoc)
  have smp: "samples_axes_0_1 be d = map (\<lambda>m. (L ! (m * D + d) - C ! (m * D + d))\<^sup>2) [0..<N * X]"
    if d: "d < D" for d
  proof -
    have "m * D + d < N * X * D" if "m < N * X" for m
      using flat_index2(1)[OF that d] .
    then show ?thesis by (simp add: samples_axes_0_1_def be_def)
  qed
  have pc: "np_percentile_axes_0_1 be (100 * error_floor_quantile hp) =
      Inr \<lparr>shape = [D], entries = map (\<lambda>d. percentile_of_sample
                (map (\<lambda>m. (L ! (m * D + d) - C ! (m * D + d))\<^sup>2) [0..<N * X])
                (100 * error_floor_quantile hp)) [0..<D]\<rparr>"
  proof -
    have "np_percentile_axes_0_1 be (100 * error_floor_quantile hp) =
      Inr \<lparr>shape = [D], entries = map (\<lambda>d. percentile_of_sample (samples_axes_0_1 be d)
                (100 * error_floor_quantile hp)) [0..<D]\<rparr>"
      using ne q0 q1 by (simp add: np_percentile_axes_0_1_def be_def)
    then show ?thesis using smp by simp
  qed
  have fl: "np_maximum_scalar \<lparr>shape = [D], entries = map (\<lambda>d. percentile_of_sample
                (map (\<lambda>m. (L ! (m * D + d) - C ! (m * D + d))\<^sup>2) [0..<N * X])
                (100 * error_floor_quantile hp)) [0..<D]\<rparr> (1 / 10 ^ 12) = fl"
    by (simp add: np_maximum_scalar_def fl_def)
  have shfl: "shape fl = [D]" by (simp add: fl_def)
  define dn where "dn = \<lparr>shape = [N, X, D],
      entries = map (\<lambda>k. (L ! k - C ! k)\<^sup>2 + entries fl ! (k mod D)) [0..<N * X * D]\<rparr>"
  have dn: "add_per_channel be fl = Inr dn"
  proof (cases "D = 1")
    case True
    then show ?thesis by (simp add: add_per_channel_def shfl be_def dn_def mult.assoc)
  next
    case False
    then show ?thesis by (simp add: add_per_channel_def shfl be_def dn_def mult.assoc)
  qed
  have re: "elementwise (\<lambda>m d. m / d) me dn = Inr re"
    by (simp add: elementwise_def me_def dn_def re_def mult.assoc)
  show lc: "loss_components (zeros_like (labels dat)) (labels dat) (baseline dat) fl = Inr (me, re)"
    by (simp add: loss_components_def bind_def me be dn re)
  define comps where "comps = \<lparr>shape = [2, N, X, D],
      entries = map (\<lambda>k. if k < N * X * D then entries me ! k else entries re ! (k - N * X * D))
                  [0..<2 * (N * X * D)]\<rparr>"
  have st: "np_stack_pair (me, re) = Inr comps"
    by (simp add: np_stack_pair_def me_def re_def comps_def mult.assoc Let_def cong: if_cong)
  have mean: "np_mean_axes_1_2 comps =
      Inr \<lparr>shape = [2, D],
           entries = map (\<lambda>j. if j < D then channel_mean me j else channel_mean re (j - D))
                       [0..<2 * D]\<rparr>"
  proof -
    have cm: "channel_mean t d
                = sum_list (map (\<lambda>m. entries t ! (m * D + d)) [0..<N * X]) / real (N * X)"
      if "shape t = [N, X, D]" for t d
      using that by (simp add: channel_mean_def Let_def)
    have shme: "shape me = [N, X, D]" and shre: "shape re = [N, X, D]"
      by (simp_all add: me_def re_def)
    have a: "sum_list (map (\<lambda>m. entries comps ! ((j div D) * (N * X) * D + m * D + j mod D))
                        [0..<N * X]) / real (N * X)
             = (if j < D then channel_mean me j else channel_mean re (j - D))"
      if j: "j < 2 * D" for j
    proof (cases "j < D")
      case True
      have "entries comps ! (m * D + j) = entries me ! (m * D + j)" if "m < N * X" for m
        using flat_index2(1)[OF that True] by (simp add: comps_def)
      then have "map (\<lambda>m. entries comps ! ((j div D) * (N * X) * D + m * D + j mod D)) [0..<N * X]
                   = map (\<lambda>m. entries me ! (m * D + j)) [0..<N * X]"
        using True by simp
      then show ?thesis using True by (simp only: cm[OF shme] if_True)
    next
      case False
      then have jd: "j div D = 1" "j mod D = j - D" using j
        by (simp_all add: div_nat_eqI mod_if)
      have jD: "j - D < D" using j False by simp
      define P where "P = N * X * D"
      have cp: "entries comps ! k = (if k < P then entries me ! k else entries re ! (k - P))"
        if "k < 2 * P" for k
        using that unfolding P_def by (simp add: comps_def)
      have "entries comps ! (N * X * D + m * D + (j - D)) = entries re ! (m * D + (j - D))"
        if "m < N * X" for m
      proof -
        have "m * D + (j - D) < P" unfolding P_def using flat_index2(1)[OF that jD] .
        then have "P + (m * D + (j - D)) < 2 * P" by simp
        from cp[OF this] show ?thesis by (simp add: P_def[symmetric] add.assoc)
      qed
      then have "map (\<lambda>m. entries comps ! ((j div D) * (N * X) * D + m * D + j mod D)) [0..<N * X]
                   = map (\<lambda>m. entries re ! (m * D + (j - D))) [0..<N * X]"
        unfolding jd by simp
      then show ?thesis using False by (simp only: cm[OF shre] if_False)
    qed
    show ?thesis
      using a by (simp add: np_mean_axes_1_2_def comps_def Let_def)
  qed
  show "determine_loss_scales load snapshots hp =
           Inr (fl, \<lparr>shape = [2, D],
                     entries = map (\<lambda>j. let mu = (if j < D then channel_mean me j
                                                   else channel_mean re (j - D))
                                         in if 0 < mu then 1 / mu else 0) [0..<2 * D]\<rparr>)"
    unfolding determine_loss_scales_def ld Let_def
    by (simp only: bind_def be pc fl lc st mean sum.case)
      (simp add: reciprocal_where_positive_def Let_def o_def)
qed

text \<open>
  Claim C2. For a reference dataset (labels and baseline of shape \<open>[N, X, D]\<close>, at
  least one example and position, the quantile a fraction in \<open>[0, 1]\<close>),
  \<open>determine_loss_scales\<close> returns an \<open>error_scale\<close> of shape \<open>[2, D]\<close> such that, for
  every channel and for the absolute head (row 0) and the relative head (row 1) alike:
  whenever the mean over the dataset of the component that \<open>loss_components\<close> returns
  for all-zero predictions is positive, that mean times the matching entry of
  \<open>error_scale\<close> is 1. (Exact arithmetic; the program rounds.)
\<close>

theorem loss_scales_normalise_zero_predictions:
  assumes ld: "load snapshots hp True False = dat"
    and sl: "shape (labels dat) = [N, X, D]" and sb: "shape (baseline dat) = [N, X, D]"
    and ne: "0 < N * X"
    and q0: "0 \<le> error_floor_quantile hp" and q1: "error_floor_quantile hp \<le> 1"
  shows "\<exists>error_floor error_scale model_error relative_error.
           determine_loss_scales load snapshots hp = Inr (error_floor, error_scale)
           \<and> loss_components (zeros_like (labels dat)) (labels dat) (baseline dat) error_floor
               = Inr (model_error, relative_error)
           \<and> shape error_scale = [2, D]
           \<and> (\<forall>d<D. (0 < channel_mean model_error d
                         \<longrightarrow> at2 error_scale 0 d * channel_mean model_error d = 1)
                    \<and> (0 < channel_mean relative_error d
                         \<longrightarrow> at2 error_scale 1 d * channel_mean relative_error d = 1))"
proof -
  from determine_loss_scales_eq[where load=load and snapshots=snapshots, OF assms] obtain fl me re where
    lc: "loss_components (zeros_like (labels dat)) (labels dat) (baseline dat) fl = Inr (me, re)"
    and dl: "determine_loss_scales load snapshots hp =
           Inr (fl, \<lparr>shape = [2, D],
                     entries = map (\<lambda>j. let mu = (if j < D then channel_mean me j
                                                   else channel_mean re (j - D))
                                         in if 0 < mu then 1 / mu else 0) [0..<2 * D]\<rparr>)"
    by blast
  define sc where "sc = \<lparr>shape = [2, D],
                     entries = map (\<lambda>j. let mu = (if j < D then channel_mean me j
                                                   else channel_mean re (j - D))
                                         in if 0 < mu then 1 / mu else 0) [0..<2 * D]\<rparr>"
  have abs: "at2 sc 0 d = (if 0 < channel_mean me d then 1 / channel_mean me d else 0)"
    and rel: "at2 sc 1 d = (if 0 < channel_mean re d then 1 / channel_mean re d else 0)"
    if "d < D" for d
    using that by (simp_all add: at2_def sc_def Let_def)
  have "(0 < channel_mean me d \<longrightarrow> at2 sc 0 d * channel_mean me d = 1)
        \<and> (0 < channel_mean re d \<longrightarrow> at2 sc 1 d * channel_mean re d = 1)"
    if "d < D" for d
    using abs[OF that] rel[OF that] by simp
  moreover have "shape sc = [2, D]" by (simp add: sc_def)
  ultimately show ?thesis using lc dl unfolding sc_def[symmetric] by blast
qed


text \<open>The example dataset with the median as error floor: the first channel has mean
  absolute component 5 and scale \<open>1/5\<close>, mean relative component \<open>76/91\<close> and scale
  \<open>91/76\<close>.\<close>

theorem loss_scales_normalise_zero_predictions_witness:
  "example_load example_field example_hparams True False = example_data
   \<and> shape (labels example_data) = [2, 1, 2] \<and> shape (baseline example_data) = [2, 1, 2]
   \<and> (0::nat) < 2 * 1
   \<and> 0 \<le> error_floor_quantile example_hparams \<and> error_floor_quantile example_hparams \<le> 1
   \<and> determine_loss_scales example_load example_field example_hparams
       = Inr (\<lparr>shape = [2], entries = [5 / 2, 1 / 1000000000000]\<rparr>,
              \<lparr>shape = [2, 2], entries = [1 / 5, 0, 91 / 76, 0]\<rparr>)
   \<and> 0 < channel_mean \<lparr>shape = [2, 1, 2], entries = [1, 0, 9, 0]\<rparr> 0
   \<and> at2 \<lparr>shape = [2, 2], entries = [1 / 5, 0, 91 / 76, 0]\<rparr> 0 0
       * channel_mean \<lparr>shape = [2, 1, 2], entries = [1, 0, 9, 0]\<rparr> 0 = 1
   \<and> 0 < channel_mean \<lparr>shape = [2, 1, 2], entries = [2 / 7, 0, 18 / 13, 0]\<rparr> 0
   \<and> at2 \<lparr>shape = [2, 2], entries = [1 / 5, 0, 91 / 76, 0]\<rparr> 1 0
       * channel_mean \<lparr>shape = [2, 1, 2], entries = [2 / 7, 0, 18 / 13, 0]\<rparr> 0 = 1"
proof -
  let ?fl = "\<lparr>shape = [2], entries = [5 / 2, 1 / 1000000000000]\<rparr>"
  let ?sc = "\<lparr>shape = [2, 2], entries = [1 / 5, 0, 91 / 76, 0]\<rparr>"
  let ?me = "\<lparr>shape = [2, 1, 2], entries = [1, 0, 9, 0]\<rparr>"
  let ?re = "\<lparr>shape = [2, 1, 2], entries = [2 / 7, 0, 18 / 13, 0]\<rparr>"
  have ld: "example_load example_field example_hparams True False = example_data"
    by (simp add: example_load_def)
  have sl: "shape (labels example_data) = [2, 1, 2]"
    and sb: "shape (baseline example_data) = [2, 1, 2]"
    by (simp_all add: example_data_def)
  have ne: "(0::nat) < 2 * 1" by simp
  have q0: "0 \<le> error_floor_quantile example_hparams"
    and q1: "error_floor_quantile example_hparams \<le> 1"
    by (simp_all add: example_hparams_def)
  have ev: "determine_loss_scales example_load example_field example_hparams = Inr (?fl, ?sc)"
    by code_simp
  have lc: "loss_components (zeros_like (labels example_data)) (labels example_data)
              (baseline example_data) ?fl = Inr (?me, ?re)"
    by code_simp
  have p1: "0 < channel_mean ?me 0" and p2: "0 < channel_mean ?re 0"
    by code_simp+
  obtain fl sc me re where
    a: "determine_loss_scales example_load example_field example_hparams = Inr (fl, sc)"
    and b: "loss_components (zeros_like (labels example_data)) (labels example_data)
              (baseline example_data) fl = Inr (me, re)"
    and c: "\<forall>d<2. (0 < channel_mean me d \<longrightarrow> at2 sc 0 d * channel_mean me d = 1)
                  \<and> (0 < channel_mean re d \<longrightarrow> at2 sc 1 d * channel_mean re d = 1)"
    using loss_scales_normalise_zero_predictions[where load=example_load
            and snapshots=example_field, OF ld sl sb ne q0 q1]
    by blast
  have "fl = ?fl" "sc = ?sc" using a ev by simp_all
  moreover from this have "me = ?me" "re = ?re" using b lc by simp_all
  ultimately have "(0 < channel_mean ?me 0 \<longrightarrow> at2 ?sc 0 0 * channel_mean ?me 0 = 1)
                 \<and> (0 < channel_mean ?re 0 \<longrightarrow> at2 ?sc 1 0 * channel_mean ?re 0 = 1)"
    using c by simp
  with p1 p2 have r: "at2 ?sc 0 0 * channel_mean ?me 0 = 1" "at2 ?sc 1 0 * channel_mean ?re 0 = 1"
    by blast+
  show ?thesis
    by (intro conjI ld sl sb ne q0 q1 ev p1 p2 r)
qed


end
